theory Spec2Isabelle
  imports Complex_Main
begin

section \<open>Data model\<close>

text \<open>
  The solver computes on single-precision floats. They are modelled as real numbers, and
  the sums, differences and products of the program are exact here: their rounding,
  overflow to infinity and signed zeros are not modelled. Two things are modelled, since
  there the difference between the reals and the floats is not a matter of precision.
  A division by zero yields a NaN or an infinity in the program and has no value here: it
  is an error of the model (\<open>NonFinite\<close>). And where the program turns floats into cells of
  a grid, which is in the constructor, in the spatial hash and in the assignment to the
  fixed grid, every operation is rounded to single precision as the machine rounds it
  (\<open>fdiv32\<close> and its like below), because there the rounding decides an integer or a
  branch: \<open>1.0f / 0.2f\<close> is \<open>5.0f\<close>, while the exact quotient of the two stored values is
  less than 5.
  Reading or writing a vector outside its bounds, converting a float that does not
  fit to an integer, and the overflow of a signed 32-bit integer are undefined behaviour in
  C++; they are the errors \<open>OutOfBounds\<close>, \<open>BadConversion\<close> and \<open>Overflow\<close>.
\<close>

datatype error = NonFinite | OutOfBounds | BadConversion | Overflow

definition bind_err :: "error + 'a \<Rightarrow> ('a \<Rightarrow> error + 'b) \<Rightarrow> error + 'b" where
  "bind_err r f = (case r of Inl e \<Rightarrow> Inl e | Inr v \<Rightarrow> f v)"

text \<open>\<open>glm::vec2\<close>: two floats, with the componentwise operations the solver uses.\<close>

record vec2 =
  vx :: real
  vy :: real

definition vadd :: "vec2 \<Rightarrow> vec2 \<Rightarrow> vec2" where
  "vadd a b = \<lparr>vx = vx a + vx b, vy = vy a + vy b\<rparr>"

definition vsub :: "vec2 \<Rightarrow> vec2 \<Rightarrow> vec2" where
  "vsub a b = \<lparr>vx = vx a - vx b, vy = vy a - vy b\<rparr>"

definition smul :: "real \<Rightarrow> vec2 \<Rightarrow> vec2" where
  "smul k a = \<lparr>vx = k * vx a, vy = k * vy a\<rparr>"

definition fdiv :: "real \<Rightarrow> real \<Rightarrow> error + real" where
  "fdiv a b = (if b = 0 then Inl NonFinite else Inr (a / b))"

text \<open>
  A vector divided by a scalar. \<open>vquot\<close> is the quotient where the divisor is known
  not to be zero (the constant \<open>2.0f\<close>); \<open>vdiv\<close> is the division by a computed value.
\<close>

definition vquot :: "vec2 \<Rightarrow> real \<Rightarrow> vec2" where
  "vquot a k = \<lparr>vx = vx a / k, vy = vy a / k\<rparr>"

definition vdiv :: "vec2 \<Rightarrow> real \<Rightarrow> error + vec2" where
  "vdiv a k = (if k = 0 then Inl NonFinite else Inr (vquot a k))"

text \<open>\<open>glm::length\<close>: the Euclidean norm.\<close>

definition vlength :: "vec2 \<Rightarrow> real" where
  "vlength a = sqrt (vx a * vx a + vy a * vy a)"

subsection \<open>Single precision\<close>

text \<open>
  Rounding to the nearest single-precision float, ties to the even significand (the
  rounding of IEEE 754 that the program runs under). A float is an integer of magnitude
  below \<open>2 ^ 24\<close> times a power of two that is at least \<open>pow2 (- 149)\<close>. The exponent of a
  number is found by a search from the least normal exponent, -126, upwards;
  \<open>pow2 (e - 23)\<close> is then the distance of two neighbouring floats about the number, and
  the number is rounded to a multiple of it. A result of magnitude \<open>2 ^ 128\<close> or more is an
  infinity in the program and \<open>NonFinite\<close> here.
\<close>

definition pow2 :: "int \<Rightarrow> real" where
  "pow2 e = (if 0 \<le> e then 2 ^ nat e else 1 / 2 ^ nat (- e))"

fun float32_exponent_from :: "nat \<Rightarrow> int \<Rightarrow> real \<Rightarrow> int" where
  "float32_exponent_from 0 e a = e"
| "float32_exponent_from (Suc fuel) e a =
     (if a < pow2 (e + 1) then e else float32_exponent_from fuel (e + 1) a)"

definition float32_exponent :: "real \<Rightarrow> int" where
  "float32_exponent a = float32_exponent_from 254 (- 126) a"

definition round_half_even :: "real \<Rightarrow> int" where
  "round_half_even r =
     (let f = \<lfloor>r\<rfloor>
      in if r - of_int f < 1 / 2 then f
         else if 1 / 2 < r - of_int f then f + 1
         else if even f then f else f + 1)"

definition float32_value :: "real \<Rightarrow> real" where
  "float32_value x =
     (let u = pow2 (float32_exponent \<bar>x\<bar> - 23)
      in of_int (round_half_even (x / u)) * u)"

definition float32_round :: "real \<Rightarrow> error + real" where
  "float32_round x =
     (if \<bar>float32_value x\<bar> < pow2 128 then Inr (float32_value x) else Inl NonFinite)"

text \<open>The quotient, sum, difference and product of two floats, as the machine computes them.\<close>

definition fdiv32 :: "real \<Rightarrow> real \<Rightarrow> error + real" where
  "fdiv32 a b = (if b = 0 then Inl NonFinite else float32_round (a / b))"

definition fadd32 :: "real \<Rightarrow> real \<Rightarrow> error + real" where
  "fadd32 a b = float32_round (a + b)"

definition fsub32 :: "real \<Rightarrow> real \<Rightarrow> error + real" where
  "fsub32 a b = float32_round (a - b)"

definition fmul32 :: "real \<Rightarrow> real \<Rightarrow> error + real" where
  "fmul32 a b = float32_round (a * b)"

subsection \<open>Integers\<close>

text \<open>
  A conversion from float to a 32-bit integer truncates towards zero and is undefined
  when the truncated value does not fit. Unsigned 32-bit arithmetic wraps around
  (\<open>u32\<close>), and \<open>s32\<close> reads a wrapped value as a signed one.
\<close>

definition truncate_float :: "real \<Rightarrow> int" where
  "truncate_float r = (if 0 \<le> r then \<lfloor>r\<rfloor> else \<lceil>r\<rceil>)"

definition to_int32 :: "real \<Rightarrow> error + int" where
  "to_int32 r =
     (let i = truncate_float r
      in if - 2147483648 \<le> i \<and> i \<le> 2147483647 then Inr i else Inl BadConversion)"

definition to_uint32 :: "real \<Rightarrow> error + nat" where
  "to_uint32 r =
     (let i = truncate_float r
      in if 0 \<le> i \<and> i \<le> 4294967295 then Inr (nat i) else Inl BadConversion)"

definition u32 :: "nat \<Rightarrow> nat" where
  "u32 n = nat (int n mod 4294967296)"

definition s32 :: "int \<Rightarrow> int" where
  "s32 i = (i + 2147483648) mod 4294967296 - 2147483648"

text \<open>
  The sum of two \<open>int32_t\<close>. Signed arithmetic does not wrap: a sum outside the type is
  undefined.
\<close>

definition int32_add :: "int \<Rightarrow> int \<Rightarrow> error + int" where
  "int32_add a b =
     (if - 2147483648 \<le> a + b \<and> a + b \<le> 2147483647 then Inr (a + b) else Inl Overflow)"

subsection \<open>Particles and the solver\<close>

text \<open>
  Modelled from the spec: the class \<open>Particle\<close> is declared in a header that is not
  among the sources. Its fields are the four of section 3 of the specification, under the
  names the solver uses for them (\<open>pos\<close>, \<open>prev_pos\<close>, \<open>force\<close>, \<open>radius\<close>).
\<close>

record particle =
  pos :: vec2
  prev_pos :: vec2
  force :: vec2
  radius :: real

text \<open>
  Modelled from the spec: \<open>Particle::update\<close> is defined in the same absent header.
  Section 4.1 of the specification: the acceleration is the force accumulator,
  the new position is \<open>position + (position - previous_position) + acceleration * dt\<^sup>2\<close>,
  the previous position becomes the position before the step, and the accumulator is
  cleared.
\<close>

definition Particle_update :: "real \<Rightarrow> particle \<Rightarrow> particle" where
  "Particle_update dt p =
     (let acceleration = force p;
          new_position = vadd (vadd (pos p) (vsub (pos p) (prev_pos p))) (smul (dt * dt) acceleration)
      in p\<lparr>pos := new_position, prev_pos := pos p, force := \<lparr>vx = 0, vy = 0\<rparr>\<rparr>)"

text \<open>
  Modelled from the spec: the class \<open>PhysicSolver\<close> is declared in the same absent
  header. The fields are those its member functions read and write. The cell counts are
  taken to be unsigned 32-bit integers, as the loops that compare them with \<open>uint32_t\<close>
  counters suggest; \<open>grid\<close> is a vector of vectors of particle indices. The field
  \<open>compute_shader\<close> belongs to the rendering side and is left out.
\<close>

record solver =
  screen_size :: vec2
  sub_steps :: nat
  cell_width :: real
  cell_count_x :: nat
  cell_count_y :: nat
  grid :: "nat list list"
  particles :: "particle list"

text \<open>
  The constructor. The quotient is a float, \<open>std::ceil\<close> returns a float, and the
  assignment converts it.
\<close>

definition PhysicSolver :: "vec2 \<Rightarrow> real \<Rightarrow> error + solver" where
  "PhysicSolver the_screen_size largest_particle_radius =
     (let cw = 2 * largest_particle_radius in
      bind_err (fdiv32 (vx the_screen_size) cw) (\<lambda>qx.
      bind_err (to_uint32 (of_int \<lceil>qx\<rceil>)) (\<lambda>ccx.
      bind_err (fdiv32 (vy the_screen_size) cw) (\<lambda>qy.
      bind_err (to_uint32 (of_int \<lceil>qy\<rceil>)) (\<lambda>ccy.
      Inr \<lparr>screen_size = the_screen_size, sub_steps = 8, cell_width = cw,
           cell_count_x = ccx, cell_count_y = ccy,
           grid = replicate (u32 (ccx * ccy)) [], particles = []\<rparr>)))))"

text \<open>
  \<open>spawnParticle\<close> appends a particle and returns a reference to the last element. The
  constructor of \<open>Particle\<close> is in the absent header and is the parameter \<open>mk\<close>; the
  reference is rendered as the index of the new element.
\<close>

definition spawnParticle ::
  "(vec2 \<Rightarrow> real \<Rightarrow> particle) \<Rightarrow> vec2 \<Rightarrow> real \<Rightarrow> solver \<Rightarrow> solver \<times> nat" where
  "spawnParticle mk p r s =
     (let s' = s\<lparr>particles := particles s @ [mk p r]\<rparr>
      in (s', length (particles s') - 1))"

section \<open>Forces, integration and the container\<close>

text \<open>A loop that rewrites every element of the particle vector in place, by index.\<close>

definition for_each_particle :: "(particle \<Rightarrow> particle) \<Rightarrow> particle list \<Rightarrow> particle list" where
  "for_each_particle f ps = fold (\<lambda>p_i qs. qs[p_i := f (qs ! p_i)]) [0..<length ps] ps"

definition applyGravity :: "solver \<Rightarrow> solver" where
  "applyGravity s =
     (let g = 2000
      in s\<lparr>particles := for_each_particle
            (\<lambda>p. p\<lparr>force := vadd (force p) \<lparr>vx = 0, vy = - g\<rparr>\<rparr>) (particles s)\<rparr>)"

definition updateParticles :: "real \<Rightarrow> solver \<Rightarrow> solver" where
  "updateParticles dt s = s\<lparr>particles := for_each_particle (Particle_update dt) (particles s)\<rparr>"

text \<open>The body of the loop of \<open>constrainParticlesToBoxContainer\<close>, first x, then y.\<close>

definition constrain_x :: "real \<Rightarrow> real \<Rightarrow> real \<Rightarrow> particle \<Rightarrow> particle" where
  "constrain_x e box_left box_right p =
     (if vx (pos p) + radius p > box_right then
        let original_displacement_x = vx (pos p) - vx (prev_pos p);
            p1 = p\<lparr>pos := (pos p)\<lparr>vx := vx (pos p) - 2 * (vx (pos p) + radius p - box_right)\<rparr>\<rparr>
        in p1\<lparr>prev_pos := (prev_pos p1)\<lparr>vx := vx (pos p1) + e * original_displacement_x\<rparr>\<rparr>
      else if vx (pos p) - radius p < box_left then
        let original_displacement_x = vx (prev_pos p) - vx (pos p);
            p1 = p\<lparr>pos := (pos p)\<lparr>vx := vx (pos p) + 2 * (box_left - (vx (pos p) - radius p))\<rparr>\<rparr>
        in p1\<lparr>prev_pos := (prev_pos p1)\<lparr>vx := vx (pos p1) - e * original_displacement_x\<rparr>\<rparr>
      else p)"

definition constrain_y :: "real \<Rightarrow> real \<Rightarrow> real \<Rightarrow> particle \<Rightarrow> particle" where
  "constrain_y e box_bottom box_top p =
     (if vy (pos p) + radius p > box_top then
        let original_displacement_y = vy (pos p) - vy (prev_pos p);
            p1 = p\<lparr>pos := (pos p)\<lparr>vy := vy (pos p) - 2 * (vy (pos p) + radius p - box_top)\<rparr>\<rparr>
        in p1\<lparr>prev_pos := (prev_pos p1)\<lparr>vy := vy (pos p1) + e * original_displacement_y\<rparr>\<rparr>
      else if vy (pos p) - radius p < box_bottom then
        let original_displacement_y = vy (prev_pos p) - vy (pos p);
            p1 = p\<lparr>pos := (pos p)\<lparr>vy := vy (pos p) + 2 * (box_bottom - (vy (pos p) - radius p))\<rparr>\<rparr>
        in p1\<lparr>prev_pos := (prev_pos p1)\<lparr>vy := vy (pos p1) - e * original_displacement_y\<rparr>\<rparr>
      else p)"

text \<open>The four edges of the box, as the function computes them from size and centre.\<close>

definition box_left :: "vec2 \<Rightarrow> vec2 \<Rightarrow> real" where
  "box_left box_container_size box_container_center =
     vx box_container_center - vx (vquot box_container_size 2)"

definition box_right :: "vec2 \<Rightarrow> vec2 \<Rightarrow> real" where
  "box_right box_container_size box_container_center =
     vx box_container_center + vx (vquot box_container_size 2)"

definition box_top :: "vec2 \<Rightarrow> vec2 \<Rightarrow> real" where
  "box_top box_container_size box_container_center =
     vy box_container_center + vy (vquot box_container_size 2)"

definition box_bottom :: "vec2 \<Rightarrow> vec2 \<Rightarrow> real" where
  "box_bottom box_container_size box_container_center =
     vy box_container_center - vy (vquot box_container_size 2)"

definition constrainParticlesToBoxContainer :: "vec2 \<Rightarrow> vec2 \<Rightarrow> solver \<Rightarrow> solver" where
  "constrainParticlesToBoxContainer box_container_size box_container_center s =
     (let e = 0.25;
          l = box_left box_container_size box_container_center;
          r = box_right box_container_size box_container_center;
          t = box_top box_container_size box_container_center;
          b = box_bottom box_container_size box_container_center
      in s\<lparr>particles := for_each_particle
            (\<lambda>p. constrain_y e b t (constrain_x e l r p)) (particles s)\<rparr>)"

section \<open>Narrow phase\<close>

text \<open>
  \<open>PhysicSolver::collideTwoParticles\<close>. \<open>p1\<close> and \<open>p2\<close> are references into the
  particle vector; the two indices differ where they are written, so the second write
  does not see the first.
\<close>

definition collideTwoParticles :: "nat \<Rightarrow> nat \<Rightarrow> solver \<Rightarrow> error + solver" where
  "collideTwoParticles p1_i p2_i s =
     (if p1_i = p2_i then Inr s
      else if \<not> (p1_i < length (particles s) \<and> p2_i < length (particles s))
      then Inl OutOfBounds
      else
        let p1 = particles s ! p1_i;
            p2 = particles s ! p2_i;
            e = 0.75;
            distanceBetweenCenters = vlength (vsub (pos p1) (pos p2));
            sumOfRadii = radius p1 + radius p2
        in if distanceBetweenCenters < sumOfRadii then
             let collisionAxis = vsub (pos p1) (pos p2) in
             bind_err (vdiv collisionAxis distanceBetweenCenters) (\<lambda>n.
             let massSum = radius p1 + radius p2 in
             bind_err (fdiv (radius p1) massSum) (\<lambda>massRatio1.
             bind_err (fdiv (radius p2) massSum) (\<lambda>massRatio2.
             let delta = e * (sumOfRadii - distanceBetweenCenters);
                 ps1 = (particles s)[p1_i := p1\<lparr>pos := vadd (pos p1) (smul (massRatio2 * delta) n)\<rparr>];
                 p2' = ps1 ! p2_i;
                 ps2 = ps1[p2_i := p2'\<lparr>pos := vsub (pos p2') (smul (massRatio1 * delta) n)\<rparr>]
             in Inr (s\<lparr>particles := ps2\<rparr>))))
           else Inr s)"

text \<open>
  A sequence of calls of \<open>collideTwoParticles\<close>, made one after the other on the
  argument pairs of the list.
\<close>

fun collideAll :: "(nat \<times> nat) list \<Rightarrow> solver \<Rightarrow> error + solver" where
  "collideAll [] s = Inr s"
| "collideAll (c # cs) s =
     (case collideTwoParticles (fst c) (snd c) s of
        Inl e \<Rightarrow> Inl e
      | Inr s' \<Rightarrow> collideAll cs s')"

text \<open>
  The argument pairs of two nested loops \<open>for i in [0, n)\<close>, \<open>for j in [i + 1, n)\<close>
  over the elements of a vector of indices, in the order of the loops.
\<close>

definition pairs_of :: "nat list \<Rightarrow> (nat \<times> nat) list" where
  "pairs_of cell =
     concat (map (\<lambda>p1_i. map (\<lambda>p2_i. (cell ! p1_i, cell ! p2_i)) [p1_i + 1..<length cell])
       [0..<length cell])"

definition solveParticleCollisionsBruteForce :: "solver \<Rightarrow> error + solver" where
  "solveParticleCollisionsBruteForce s =
     collideAll (pairs_of [0..<length (particles s)]) s"

section \<open>Fixed grid\<close>

definition push_back :: "nat \<Rightarrow> nat \<Rightarrow> nat list list \<Rightarrow> error + nat list list" where
  "push_back idx p_i g =
     (if idx < length g then Inr (g[idx := g ! idx @ [p_i]]) else Inl OutOfBounds)"

text \<open>
  The two computations of the loop of \<open>assignParticlesToFixedGrid\<close>, which it makes once
  for x and once for y: the cell coordinate of the minimum corner,
  \<open>(uint32_t)((pos - radius) / cell_width)\<close>, and the test whether the box reaches the
  next cell, \<open>cell + 1 < cell_count && pos + radius >= cell_width * (cell + 1)\<close>, whose
  second operand is evaluated only where the first one holds. The difference, the
  quotient, the sum and the product are rounded to single precision, and so is the
  conversion of \<open>cell + 1\<close> to a float.
\<close>

definition corner_cell :: "solver \<Rightarrow> real \<Rightarrow> real \<Rightarrow> error + nat" where
  "corner_cell s c r =
     bind_err (fsub32 c r) (\<lambda>l.
     bind_err (fdiv32 l (cell_width s)) (\<lambda>q.
     to_uint32 q))"

definition reaches_next :: "solver \<Rightarrow> real \<Rightarrow> real \<Rightarrow> nat \<Rightarrow> nat \<Rightarrow> error + bool" where
  "reaches_next s c r cell cell_count =
     (if u32 (cell + 1) < cell_count then
        bind_err (fadd32 c r) (\<lambda>h.
        bind_err (fmul32 (cell_width s) (float32_value (real (u32 (cell + 1))))) (\<lambda>b.
        Inr (h \<ge> b)))
      else Inr False)"

text \<open>The body of the loop of \<open>assignParticlesToFixedGrid\<close>, for particle \<open>p_i\<close>.\<close>

definition assignParticle :: "solver \<Rightarrow> nat \<Rightarrow> particle \<Rightarrow> nat list list \<Rightarrow> error + nat list list" where
  "assignParticle s p_i p g =
     bind_err (corner_cell s (vx (pos p)) (radius p)) (\<lambda>cell_x.
     bind_err (corner_cell s (vy (pos p)) (radius p)) (\<lambda>cell_y.
     bind_err (push_back (u32 (u32 (cell_y * cell_count_x s) + cell_x)) p_i g) (\<lambda>g1.
     bind_err (reaches_next s (vy (pos p)) (radius p) cell_y (cell_count_y s)) (\<lambda>in_north.
     bind_err (reaches_next s (vx (pos p)) (radius p) cell_x (cell_count_x s)) (\<lambda>in_east.
     bind_err
       (if in_north then
          bind_err (push_back (u32 (u32 (u32 (cell_y + 1) * cell_count_x s) + cell_x)) p_i g1) (\<lambda>g2.
          if in_east then
            push_back (u32 (u32 (u32 (u32 (cell_y + 1) * cell_count_x s) + cell_x) + 1)) p_i g2
          else Inr g2)
        else Inr g1) (\<lambda>g3.
     if in_east then push_back (u32 (u32 (u32 (cell_y * cell_count_x s) + cell_x) + 1)) p_i g3
     else Inr g3))))))"

fun assignLoop :: "solver \<Rightarrow> nat \<Rightarrow> particle list \<Rightarrow> nat list list \<Rightarrow> error + nat list list" where
  "assignLoop s p_i [] g = Inr g"
| "assignLoop s p_i (p # ps) g =
     (case assignParticle s p_i p g of
        Inl e \<Rightarrow> Inl e
      | Inr g' \<Rightarrow> assignLoop s (p_i + 1) ps g')"

text \<open>The loop runs over the first \<open>particle_count\<close> particles, a \<open>uint32_t\<close>.\<close>

definition assignParticlesToFixedGrid :: "solver \<Rightarrow> error + solver" where
  "assignParticlesToFixedGrid s =
     (let particle_count = u32 (length (particles s))
      in bind_err (assignLoop s 0 (take particle_count (particles s)) (grid s))
           (\<lambda>g. Inr (s\<lparr>grid := g\<rparr>)))"

text \<open>
  The cells that the two outer loops of \<open>solveGridCollisionsInRange\<close> visit, in the
  order of the visit: the index \<open>y * cell_count_x + x\<close> for \<open>y\<close> outside and \<open>x\<close> inside.
\<close>

definition cells_in_range :: "nat \<Rightarrow> nat \<Rightarrow> nat \<Rightarrow> nat \<Rightarrow> nat \<Rightarrow> nat list" where
  "cells_in_range ccx x_start x_end y_start y_end =
     concat (map (\<lambda>y. map (\<lambda>x. u32 (u32 (y * ccx) + x)) [x_start..<x_end]) [y_start..<y_end])"

text \<open>
  The visit of the cells: in each one, every pair of its members is collided, then the
  cell is cleared.
\<close>

fun solveCells :: "nat list \<Rightarrow> solver \<Rightarrow> error + solver" where
  "solveCells [] s = Inr s"
| "solveCells (c # cs) s =
     (if c < length (grid s) then
        (case collideAll (pairs_of (grid s ! c)) s of
           Inl e \<Rightarrow> Inl e
         | Inr s' \<Rightarrow> solveCells cs (s'\<lparr>grid := (grid s')[c := []]\<rparr>))
      else Inl OutOfBounds)"

definition solveGridCollisionsInRange :: "nat \<Rightarrow> nat \<Rightarrow> nat \<Rightarrow> nat \<Rightarrow> solver \<Rightarrow> error + solver" where
  "solveGridCollisionsInRange x_start x_end y_start y_end s =
     solveCells (cells_in_range (cell_count_x s) x_start x_end y_start y_end) s"

definition solveParticleCollisionsFixedGrid :: "solver \<Rightarrow> error + solver" where
  "solveParticleCollisionsFixedGrid s =
     bind_err (assignParticlesToFixedGrid s) (\<lambda>s'.
     solveGridCollisionsInRange 0 (cell_count_x s') 0 (cell_count_y s') s')"

text \<open>
  The calls of \<open>collideTwoParticles\<close> that the visit makes, in order. Which calls are
  made depends on the grid alone, since \<open>collideTwoParticles\<close> writes positions only;
  so the grid is followed through the visit, and the particles are not.
\<close>

fun cellCalls :: "nat list \<Rightarrow> nat list list \<Rightarrow> error + (nat \<times> nat) list" where
  "cellCalls [] g = Inr []"
| "cellCalls (c # cs) g =
     (if c < length g then
        (case cellCalls cs (g[c := []]) of
           Inl e \<Rightarrow> Inl e
         | Inr calls \<Rightarrow> Inr (pairs_of (g ! c) @ calls))
      else Inl OutOfBounds)"

definition fixedGridCalls :: "solver \<Rightarrow> error + (nat \<times> nat) list" where
  "fixedGridCalls s =
     bind_err (assignParticlesToFixedGrid s) (\<lambda>s'.
     cellCalls (cells_in_range (cell_count_x s') 0 (cell_count_x s') 0 (cell_count_y s')) (grid s'))"

text \<open>
  The geometry of the assignment, in exact arithmetic. What it is for the minimum corner
  of the bounding box of a particle to lie in the grid; and the cells that the bounding
  box of a particle reaches, as the tests of \<open>assignParticlesToFixedGrid\<close> have it: the
  cell of the minimum corner, the cell to the north and the cell to the east where the box
  reaches their border and they exist, and the cell to the north-east where it reaches
  both.
\<close>

definition corner_in_grid :: "solver \<Rightarrow> particle \<Rightarrow> bool" where
  "corner_in_grid s p \<longleftrightarrow>
     0 \<le> vx (pos p) - radius p \<and> 0 \<le> vy (pos p) - radius p \<and>
     \<lfloor>(vx (pos p) - radius p) / cell_width s\<rfloor> < int (cell_count_x s) \<and>
     \<lfloor>(vy (pos p) - radius p) / cell_width s\<rfloor> < int (cell_count_y s)"

definition cells_of :: "solver \<Rightarrow> particle \<Rightarrow> nat set" where
  "cells_of s p =
     (let cell_x = nat \<lfloor>(vx (pos p) - radius p) / cell_width s\<rfloor>;
          cell_y = nat \<lfloor>(vy (pos p) - radius p) / cell_width s\<rfloor>;
          in_north = (cell_y + 1 < cell_count_y s \<and>
                      vy (pos p) + radius p \<ge> cell_width s * real (cell_y + 1));
          in_east = (cell_x + 1 < cell_count_x s \<and>
                     vx (pos p) + radius p \<ge> cell_width s * real (cell_x + 1))
      in {cell_y * cell_count_x s + cell_x} \<union>
         (if in_north then {(cell_y + 1) * cell_count_x s + cell_x} else {}) \<union>
         (if in_north \<and> in_east then {(cell_y + 1) * cell_count_x s + cell_x + 1} else {}) \<union>
         (if in_east then {cell_y * cell_count_x s + cell_x + 1} else {}))"

text \<open>
  The rounding of the program is harmless for a particle when the four computations of
  the loop, in single precision, give what they give in exact arithmetic: the two cell
  coordinates of the minimum corner and the outcomes of the two tests.
\<close>

definition rounding_harmless :: "solver \<Rightarrow> particle \<Rightarrow> bool" where
  "rounding_harmless s p \<longleftrightarrow>
     (let cell_x = nat \<lfloor>(vx (pos p) - radius p) / cell_width s\<rfloor>;
          cell_y = nat \<lfloor>(vy (pos p) - radius p) / cell_width s\<rfloor>
      in corner_cell s (vx (pos p)) (radius p) = Inr cell_x \<and>
         corner_cell s (vy (pos p)) (radius p) = Inr cell_y \<and>
         reaches_next s (vy (pos p)) (radius p) cell_y (cell_count_y s) =
           Inr (cell_y + 1 < cell_count_y s \<and>
                vy (pos p) + radius p \<ge> cell_width s * real (cell_y + 1)) \<and>
         reaches_next s (vx (pos p)) (radius p) cell_x (cell_count_x s) =
           Inr (cell_x + 1 < cell_count_x s \<and>
                vx (pos p) + radius p \<ge> cell_width s * real (cell_x + 1)))"


text \<open>How often a list of calls has the unordered pair of \<open>i\<close> and \<open>j\<close>.\<close>

definition times_called :: "nat \<Rightarrow> nat \<Rightarrow> (nat \<times> nat) list \<Rightarrow> nat" where
  "times_called i j calls =
     length (filter (\<lambda>c. (fst c = i \<and> snd c = j) \<or> (fst c = j \<and> snd c = i)) calls)"

section \<open>Spatial hash\<close>

text \<open>
  The cell of a particle, by its centre, as both loops over the particles compute it.
  The position and the cell width are stored floats, and the division is the only
  operation before the conversion: its rounding is the machine's.
\<close>

definition hash_cell :: "solver \<Rightarrow> particle \<Rightarrow> error + int" where
  "hash_cell s p =
     bind_err (fdiv32 (vx (pos p)) (cell_width s)) (\<lambda>qx.
     bind_err (to_int32 qx) (\<lambda>cell_x.
     bind_err (fdiv32 (vy (pos p)) (cell_width s)) (\<lambda>qy.
     bind_err (to_int32 qy) (\<lambda>cell_y.
     Inr (s32 (cell_y * int (cell_count_x s) + cell_x))))))"

text \<open>First loop: the number of particles of each cell. The counters are \<open>int32_t\<close>.\<close>

fun countCells :: "solver \<Rightarrow> particle list \<Rightarrow> int list \<Rightarrow> error + int list" where
  "countCells s [] count_arr = Inr count_arr"
| "countCells s (p # ps) count_arr =
     (case hash_cell s p of
        Inl e \<Rightarrow> Inl e
      | Inr h \<Rightarrow>
          if 0 \<le> h \<and> nat h < length count_arr
          then bind_err (int32_add (count_arr ! nat h) 1) (\<lambda>v.
               countCells s ps (count_arr[nat h := v]))
          else Inl OutOfBounds)"

text \<open>
  Second loop: the partial sums, in place, from index 1. The loop counter is an
  \<open>int32_t\<close>: it cannot go beyond \<open>2147483647\<close>, so an iteration with a greater index is
  reached only through an overflow of the counter.
\<close>

fun partialSumsLoop :: "nat list \<Rightarrow> int list \<Rightarrow> error + int list" where
  "partialSumsLoop [] count_arr = Inr count_arr"
| "partialSumsLoop (i # is) count_arr =
     (if 2147483647 < int i then Inl Overflow
      else bind_err (int32_add (count_arr ! i) (count_arr ! (i - 1))) (\<lambda>v.
           partialSumsLoop is (count_arr[i := v])))"

definition partialSums :: "int list \<Rightarrow> error + int list" where
  "partialSums count_arr = partialSumsLoop [1..<length count_arr] count_arr"

text \<open>
  Third loop: particle \<open>p_i\<close> goes to the slot before the cursor of its cell, and the
  cursor moves down. The counter \<open>p_i\<close> is an \<open>int32_t\<close> as well.
\<close>

fun scatter ::
  "solver \<Rightarrow> nat \<Rightarrow> particle list \<Rightarrow> int list \<times> int list \<Rightarrow> error + int list \<times> int list" where
  "scatter s p_i [] (count_arr, particles_grouped) = Inr (count_arr, particles_grouped)"
| "scatter s p_i (p # ps) (count_arr, particles_grouped) =
     (if 2147483647 < int p_i then Inl Overflow
      else
        case hash_cell s p of
          Inl e \<Rightarrow> Inl e
        | Inr h \<Rightarrow>
            if 0 \<le> h \<and> nat h < length count_arr then
              bind_err (int32_add (count_arr ! nat h) (- 1)) (\<lambda>k.
              if 0 \<le> k \<and> nat k < length particles_grouped
              then scatter s (p_i + 1) ps
                     (count_arr[nat h := k], particles_grouped[nat k := int p_i])
              else Inl OutOfBounds)
            else Inl OutOfBounds)"

text \<open>
  The build of the hash, which is the first part of \<open>solveParticleCollisionsSpatialHash\<close>:
  the two vectors and the three loops. The result is the offsets (\<open>count_arr\<close>) and the
  grouped indices (\<open>particles_grouped\<close>).
\<close>

definition spatialHashBuild :: "solver \<Rightarrow> error + int list \<times> int list" where
  "spatialHashBuild s =
     (let count_arr = replicate (u32 (u32 (cell_count_x s * cell_count_y s) + 1)) 0;
          particles_grouped = replicate (length (particles s)) 0
      in bind_err (countCells s (particles s) count_arr) (\<lambda>count_arr1.
         bind_err (partialSums count_arr1) (\<lambda>count_arr2.
         scatter s 0 (particles s) (count_arr2, particles_grouped))))"





text \<open>
  The second part of \<open>solveParticleCollisionsSpatialHash\<close> hands four buffers to a compute
  shader and reads the positions back. The shader is not part of the sources: it is the
  parameter \<open>kernel\<close>, a function from the metadata block, the offsets, the grouped indices
  and the positions buffer to the contents of the positions buffer after the dispatch.
  The loops that fill the positions buffer and that read it back index it with \<open>2 * i\<close>
  and \<open>2 * i + 1\<close> for an \<open>int32_t\<close> counter \<open>i\<close>, which overflows when there are more
  than \<open>2 ^ 30\<close> particles.
\<close>

type_synonym kernel =
  "real \<times> int \<times> int \<times> int \<Rightarrow> int list \<Rightarrow> int list \<Rightarrow> real list \<Rightarrow> nat \<Rightarrow> real"

definition solveParticleCollisionsSpatialHash :: "kernel \<Rightarrow> solver \<Rightarrow> error + solver" where
  "solveParticleCollisionsSpatialHash K s =
     bind_err (spatialHashBuild s) (\<lambda>(count_arr, particles_grouped).
     if 1073741824 < int (length (particles s)) then Inl Overflow
     else
       let positions_arr = concat (map (\<lambda>p. [vx (pos p), vy (pos p)]) (particles s));
           meta_ssbo_container =
             (cell_width s, s32 (int (cell_count_x s)), s32 (int (cell_count_y s)),
              int (length (particles s)));
           updated_positions_arr = K meta_ssbo_container count_arr particles_grouped positions_arr
       in Inr (s\<lparr>particles :=
            map (\<lambda>p_i. (particles s ! p_i)\<lparr>pos :=
                   \<lparr>vx = updated_positions_arr (2 * p_i), vy = updated_positions_arr (2 * p_i + 1)\<rparr>\<rparr>)
              [0..<length (particles s)]\<rparr>))"

section \<open>The driver\<close>

text \<open>The body of the loop of \<open>update\<close>: one sub-step.\<close>

definition sub_step :: "kernel \<Rightarrow> real \<Rightarrow> solver \<Rightarrow> error + solver" where
  "sub_step K step_dt s =
     solveParticleCollisionsSpatialHash K
       (constrainParticlesToBoxContainer (screen_size s) (vquot (screen_size s) 2)
         (updateParticles step_dt (applyGravity s)))"

text \<open>The loop of \<open>update\<close>, with the number of iterations that remain.\<close>

fun update_loop :: "kernel \<Rightarrow> real \<Rightarrow> nat \<Rightarrow> solver \<Rightarrow> error + solver" where
  "update_loop K step_dt 0 s = Inr s"
| "update_loop K step_dt (Suc n) s =
     (case sub_step K step_dt s of
        Inl e \<Rightarrow> Inl e
      | Inr s' \<Rightarrow> update_loop K step_dt n s')"

text \<open>
  \<open>update\<close>. The step is \<open>dt / sub_steps\<close>, a float divided by an integer; were
  \<open>sub_steps\<close> zero the quotient would not be finite, and the loop would not use it.
\<close>

definition update :: "kernel \<Rightarrow> real \<Rightarrow> solver \<Rightarrow> error + solver" where
  "update K dt s =
     (let step_dt = dt / real (sub_steps s)
      in update_loop K step_dt (sub_steps s) s)"

section \<open>Concrete states\<close>

text \<open>
  A particle at rest at a given place, and a solver for a screen of 200 by 100 with cells
  of width 50 that holds given particles. They are the inputs at which the theorems below
  are evaluated.
\<close>

definition particle_at :: "real \<Rightarrow> real \<Rightarrow> real \<Rightarrow> particle" where
  "particle_at x y r =
     \<lparr>pos = \<lparr>vx = x, vy = y\<rparr>, prev_pos = \<lparr>vx = x, vy = y\<rparr>,
      force = \<lparr>vx = 0, vy = 0\<rparr>, radius = r\<rparr>"

definition solver_with :: "particle list \<Rightarrow> solver" where
  "solver_with ps =
     \<lparr>screen_size = \<lparr>vx = 200, vy = 100\<rparr>, sub_steps = 8, cell_width = 50,
      cell_count_x = 4, cell_count_y = 2, grid = replicate 8 [], particles = ps\<rparr>"

text \<open>A particle that moves up and to the right, and one that moves down and to the left.\<close>

definition two_movers :: solver where
  "two_movers = solver_with
     [\<lparr>pos = \<lparr>vx = 98, vy = 97\<rparr>, prev_pos = \<lparr>vx = 96, vy = 96\<rparr>,
       force = \<lparr>vx = 0, vy = 0\<rparr>, radius = 5\<rparr>,
      \<lparr>pos = \<lparr>vx = - 98, vy = - 97\<rparr>, prev_pos = \<lparr>vx = - 96, vy = - 96\<rparr>,
       force = \<lparr>vx = 0, vy = 0\<rparr>, radius = 5\<rparr>]"



text \<open>
  Two overlapping particles of radius \<open>0.7f\<close> in a grid of 4 by 1 cells of width \<open>1.4f\<close>.
  All the numbers are floats. In exact arithmetic the minimum corner of the first particle
  is in the third cell, less than half the distance of two floats before the border of the
  fourth.
\<close>

definition rounded_apart_pair :: solver where
  "rounded_apart_pair =
     \<lparr>screen_size = \<lparr>vx = 11744051 / 2097152, vy = 11744051 / 8388608\<rparr>, sub_steps = 8,
      cell_width = 11744051 / 8388608, cell_count_x = 4, cell_count_y = 1,
      grid = [[], [], [], []],
      particles =
        [particle_at (2569011 / 524288) (11744051 / 16777216) (11744051 / 16777216),
         particle_at (14680063 / 4194304) (11744051 / 16777216) (11744051 / 16777216)]\<rparr>"




section \<open>Properties of the narrow phase\<close>

lemma vlength_nonneg: "0 \<le> vlength a"
  by (simp add: vlength_def)

lemma vlength_smul: "vlength (smul k a) = \<bar>k\<bar> * vlength a"
proof -
  have "(k * vx a) * (k * vx a) + (k * vy a) * (k * vy a) = k\<^sup>2 * (vx a * vx a + vy a * vy a)"
    by (simp add: power2_eq_square algebra_simps)
  then show ?thesis
    by (simp add: vlength_def smul_def real_sqrt_mult)
qed

lemma vlength_horizontal: "vlength \<lparr>vx = a, vy = 0\<rparr> = \<bar>a\<bar>"
  by (simp add: vlength_def)

lemma vdiv_nonzero: "k \<noteq> 0 \<Longrightarrow> vdiv a k = Inr (smul (1 / k) a)"
  by (simp add: vdiv_def vquot_def smul_def)

lemma vsub_vadd_same: "vsub (vadd a v) a = v"
  by (simp add: vsub_def vadd_def)

lemma vsub_vsub_same: "vsub (vsub a v) a = smul (- 1) v"
  by (simp add: vsub_def smul_def)

text \<open>What a call does to a pair that overlaps and whose centres are apart.\<close>

lemma collideTwoParticles_resolved:
  assumes neq: "p1_i \<noteq> p2_i"
    and lt: "p1_i < length (particles s)" "p2_i < length (particles s)"
    and p1: "p1 = particles s ! p1_i" and p2: "p2 = particles s ! p2_i"
    and d: "d = vlength (vsub (pos p1) (pos p2))"
    and d0: "d \<noteq> 0" and dlt: "d < radius p1 + radius p2"
  shows "collideTwoParticles p1_i p2_i s =
           Inr (s\<lparr>particles := (particles s)
             [p1_i := p1\<lparr>pos := vadd (pos p1)
                 (smul (radius p2 / (radius p1 + radius p2) * (0.75 * (radius p1 + radius p2 - d)))
                   (smul (1 / d) (vsub (pos p1) (pos p2))))\<rparr>,
              p2_i := p2\<lparr>pos := vsub (pos p2)
                 (smul (radius p1 / (radius p1 + radius p2) * (0.75 * (radius p1 + radius p2 - d)))
                   (smul (1 / d) (vsub (pos p1) (pos p2))))\<rparr>]\<rparr>)"
proof -
  have "0 \<le> d" using d by (simp add: vlength_nonneg)
  with dlt have sum0: "radius p1 + radius p2 \<noteq> 0" by linarith
  show ?thesis
    using neq lt d0 dlt sum0
    unfolding collideTwoParticles_def Let_def p1 [symmetric] p2 [symmetric] d [symmetric]
    by (simp add: vdiv_nonzero fdiv_def bind_err_def p2)
qed

text \<open>
  C1. For two distinct particles that overlap, with their centres at a distance
  \<open>0 < d < r1 + r2\<close>, one call of \<open>collideTwoParticles\<close> moves particle 1 by
  \<open>(r2 / (r1 + r2)) * 0.75 * (r1 + r2 - d) * n\<close> and particle 2 by the opposite of
  \<open>(r1 / (r1 + r2)) * 0.75 * (r1 + r2 - d) * n\<close>, where \<open>n = (pos1 - pos2) / d\<close>. The
  lengths of the two displacements are in the ratio \<open>r2 : r1\<close>, so the larger particle
  moves less.
\<close>

theorem collideTwoParticles_displacement:
  assumes "p1_i \<noteq> p2_i" "p1_i < length (particles s)" "p2_i < length (particles s)"
    and "p1 = particles s ! p1_i" "p2 = particles s ! p2_i"
    and "d = vlength (vsub (pos p1) (pos p2))"
    and "n = smul (1 / d) (vsub (pos p1) (pos p2))"
    and "0 < d" "d < radius p1 + radius p2"
  shows "\<exists>s'. collideTwoParticles p1_i p2_i s = Inr s' \<and>
           pos (particles s' ! p1_i) =
             vadd (pos p1)
               (smul (radius p2 / (radius p1 + radius p2) * 0.75 * (radius p1 + radius p2 - d)) n) \<and>
           pos (particles s' ! p2_i) =
             vsub (pos p2)
               (smul (radius p1 / (radius p1 + radius p2) * 0.75 * (radius p1 + radius p2 - d)) n) \<and>
           \<bar>radius p1\<bar> * vlength (vsub (pos (particles s' ! p1_i)) (pos p1)) =
           \<bar>radius p2\<bar> * vlength (vsub (pos (particles s' ! p2_i)) (pos p2))"
proof -
  have d0: "d \<noteq> 0" using assms(8) by simp
  note r = collideTwoParticles_resolved [OF assms(1-6) d0 assms(9)]
  let ?k = "0.75 * (radius p1 + radius p2 - d)"
  let ?R = "radius p1 + radius p2"
  have len: "\<bar>radius p1\<bar> * (\<bar>radius p2 / ?R * ?k\<bar> * vlength n) =
             \<bar>radius p2\<bar> * (\<bar>- 1\<bar> * (\<bar>radius p1 / ?R * ?k\<bar> * vlength n))"
    by (simp add: abs_mult)
  show ?thesis
    unfolding r using assms(1-3) len
    by (simp add: assms(7) [symmetric] vsub_vadd_same vsub_vsub_same vlength_smul mult.assoc)
qed

theorem collideTwoParticles_displacement_witness:
  "\<exists>s'. collideTwoParticles 0 1 (solver_with [particle_at 65 50 20, particle_at 50 50 5]) = Inr s' \<and>
        pos (particles s' ! 0) = \<lparr>vx = 66.5, vy = 50\<rparr> \<and>
        pos (particles s' ! 1) = \<lparr>vx = 44, vy = 50\<rparr> \<and>
        20 * vlength (vsub (pos (particles s' ! 0)) \<lparr>vx = 65, vy = 50\<rparr>) =
        5 * vlength (vsub (pos (particles s' ! 1)) \<lparr>vx = 50, vy = 50\<rparr>)"
  using collideTwoParticles_displacement [of 0 1 "solver_with [particle_at 65 50 20, particle_at 50 50 5]"
      "particle_at 65 50 20" "particle_at 50 50 5" 15 "\<lparr>vx = 1, vy = 0\<rparr>"]
  by (simp add: solver_with_def particle_at_def vsub_def vadd_def smul_def vlength_horizontal)

text \<open>
  Two distinct particles with the same centre: the distance is zero, it is less than the
  sum of the radii as soon as that is positive, and the collision axis is divided by it.
  No branch of the function tests the distance against zero or a floor.
\<close>

lemma collideTwoParticles_coincident:
  assumes "p1_i \<noteq> p2_i" "p1_i < length (particles s)" "p2_i < length (particles s)"
    and "pos (particles s ! p1_i) = pos (particles s ! p2_i)"
    and "0 < radius (particles s ! p1_i) + radius (particles s ! p2_i)"
  shows "collideTwoParticles p1_i p2_i s = Inl NonFinite"
proof -
  have "vlength (vsub (pos (particles s ! p1_i)) (pos (particles s ! p2_i))) = 0"
    using assms(4) by (simp add: vlength_def vsub_def)
  then show ?thesis
    using assms by (simp add: collideTwoParticles_def Let_def vdiv_def bind_err_def)
qed

text \<open>
  C2. The claim is that for two distinct particles with coincident centres and
  \<open>r1 + r2 > 0\<close> the function does not divide by zero, but floors the distance or skips
  the pair, so that the positions stay finite. The function does neither: for two
  particles of radius 10 at the same place it divides the collision axis by the
  distance 0, and the positions it writes are not finite.
\<close>

theorem collideTwoParticles_coincident_divides_by_zero:
  "collideTwoParticles 0 1 (solver_with [particle_at 50 50 10, particle_at 50 50 10]) =
     Inl NonFinite"
  by (rule collideTwoParticles_coincident) (simp_all add: solver_with_def particle_at_def)

text \<open>A call on one index, or on a pair that does not overlap, changes nothing.\<close>

lemma collideTwoParticles_unchanged:
  assumes "p1_i = p2_i \<or>
           (p1_i < length (particles s) \<and> p2_i < length (particles s) \<and>
            radius (particles s ! p1_i) + radius (particles s ! p2_i)
              \<le> vlength (vsub (pos (particles s ! p1_i)) (pos (particles s ! p2_i))))"
  shows "collideTwoParticles p1_i p2_i s = Inr s"
  using assms by (auto simp add: collideTwoParticles_def Let_def)

lemma weighted_cancel:
  assumes "r1 * K1 = r2 * K2"
  shows "vadd (smul r1 (vadd a (smul K1 n))) (smul r2 (vsub b (smul K2 n))) =
         vadd (smul r1 a) (smul r2 b)"
proof -
  have "r1 * (x + K1 * m) + r2 * (y - K2 * m) = r1 * x + r2 * y" for x y m :: real
  proof -
    have "r1 * (x + K1 * m) + r2 * (y - K2 * m) = r1 * x + r2 * y + (r1 * K1 - r2 * K2) * m"
      by (simp add: algebra_simps)
    then show ?thesis using assms by simp
  qed
  then show ?thesis
    by (simp add: vadd_def vsub_def smul_def)
qed

text \<open>
  Whenever a call on two distinct particles returns a state, the sum of the positions
  weighted by the radii is what it was.
\<close>

lemma collideTwoParticles_weighted_sum:
  assumes neq: "p1_i \<noteq> p2_i"
    and lt: "p1_i < length (particles s)" "p2_i < length (particles s)"
    and run: "collideTwoParticles p1_i p2_i s = Inr s'"
  shows "vadd (smul (radius (particles s ! p1_i)) (pos (particles s' ! p1_i)))
              (smul (radius (particles s ! p2_i)) (pos (particles s' ! p2_i))) =
         vadd (smul (radius (particles s ! p1_i)) (pos (particles s ! p1_i)))
              (smul (radius (particles s ! p2_i)) (pos (particles s ! p2_i)))"
proof -
  let ?p1 = "particles s ! p1_i" and ?p2 = "particles s ! p2_i"
  let ?d = "vlength (vsub (pos ?p1) (pos ?p2))"
  show ?thesis
  proof (cases "?d < radius ?p1 + radius ?p2")
    case False
    then have "collideTwoParticles p1_i p2_i s = Inr s"
      using lt by (intro collideTwoParticles_unchanged) simp
    with run show ?thesis by simp
  next
    case True
    have d0: "?d \<noteq> 0"
    proof
      assume "?d = 0"
      then have "collideTwoParticles p1_i p2_i s = Inl NonFinite"
        using neq lt True by (simp add: collideTwoParticles_def Let_def vdiv_def bind_err_def)
      with run show False by simp
    qed
    define K1 where
      "K1 = radius ?p2 / (radius ?p1 + radius ?p2) * (0.75 * (radius ?p1 + radius ?p2 - ?d))"
    define K2 where
      "K2 = radius ?p1 / (radius ?p1 + radius ?p2) * (0.75 * (radius ?p1 + radius ?p2 - ?d))"
    define n where "n = smul (1 / ?d) (vsub (pos ?p1) (pos ?p2))"
    have K: "radius ?p1 * K1 = radius ?p2 * K2"
      by (simp add: K1_def K2_def)
    have "collideTwoParticles p1_i p2_i s =
            Inr (s\<lparr>particles := (particles s)
              [p1_i := ?p1\<lparr>pos := vadd (pos ?p1) (smul K1 n)\<rparr>,
               p2_i := ?p2\<lparr>pos := vsub (pos ?p2) (smul K2 n)\<rparr>]\<rparr>)"
      unfolding K1_def K2_def n_def
      by (rule collideTwoParticles_resolved [OF neq lt refl refl refl d0 True])
    with run have s': "s' = s\<lparr>particles := (particles s)
              [p1_i := ?p1\<lparr>pos := vadd (pos ?p1) (smul K1 n)\<rparr>,
               p2_i := ?p2\<lparr>pos := vsub (pos ?p2) (smul K2 n)\<rparr>]\<rparr>"
      by simp
    show ?thesis
      unfolding s' using neq lt by (simp add: weighted_cancel [OF K])
  qed
qed

text \<open>
  C10. The claim is that for every pair of distinct indices the sum
  \<open>r1 * pos1 + r2 * pos2\<close> is the same before and after the call, and that a pair that does
  not overlap, or an index paired with itself, is left unchanged. The second half holds
  (\<open>collideTwoParticles_unchanged\<close>), and so does the first for every call that returns
  finite positions (\<open>collideTwoParticles_weighted_sum\<close>). It fails for the pair that the
  function does not guard: two distinct particles of radii 20 and 5 at the same place are
  an overlapping pair, the division by their distance 0 leaves no finite position, and
  there is no sum left to compare.
\<close>

theorem collideTwoParticles_weighted_sum_lost:
  "collideTwoParticles 0 1 (solver_with [particle_at 30 40 20, particle_at 30 40 5]) =
     Inl NonFinite"
  by (rule collideTwoParticles_coincident) (simp_all add: solver_with_def particle_at_def)

section \<open>Properties of integration and of the container\<close>

lemma fold_index_update:
  "k \<le> length ps \<Longrightarrow>
     fold (\<lambda>p_i qs. qs[p_i := f (qs ! p_i)]) [0..<k] ps = map f (take k ps) @ drop k ps"
proof (induction k)
  case 0
  then show ?case by simp
next
  case (Suc k)
  then have k: "k < length ps" by simp
  have "fold (\<lambda>p_i qs. qs[p_i := f (qs ! p_i)]) [0..<Suc k] ps =
        (map f (take k ps) @ drop k ps)[k := f ((map f (take k ps) @ drop k ps) ! k)]"
    using Suc by simp
  also have "(map f (take k ps) @ drop k ps) ! k = ps ! k"
    using k by (simp add: nth_append)
  also have "(map f (take k ps) @ drop k ps)[k := f (ps ! k)] =
             map f (take k ps) @ (drop k ps)[0 := f (ps ! k)]"
    using k by (simp add: list_update_append)
  also have "(drop k ps)[0 := f (ps ! k)] = f (ps ! k) # drop (Suc k) ps"
    using k by (simp add: Cons_nth_drop_Suc [symmetric])
  also have "map f (take k ps) @ f (ps ! k) # drop (Suc k) ps =
             map f (take (Suc k) ps) @ drop (Suc k) ps"
    using k by (simp add: take_Suc_conv_app_nth)
  finally show ?case .
qed

text \<open>The loop by index rewrites each particle once, from its own old value.\<close>

lemma for_each_particle_map: "for_each_particle f ps = map f ps"
  by (simp add: for_each_particle_def fold_index_update)

text \<open>
  C6. One integration step with time step \<open>dt\<close> sets, for every particle, the new
  position to \<open>position + (position - previous_position) + force_accumulator * dt\<^sup>2\<close>, the
  previous position to the position before the step and the force accumulator to zero;
  with a zero accumulator the particle moves by exactly \<open>position - previous_position\<close>.
\<close>

theorem updateParticles_verlet:
  assumes "p_i < length (particles s)"
    and "p = particles s ! p_i"
    and "p' = particles (updateParticles dt s) ! p_i"
  shows "length (particles (updateParticles dt s)) = length (particles s) \<and>
         pos p' = vadd (vadd (pos p) (vsub (pos p) (prev_pos p))) (smul (dt\<^sup>2) (force p)) \<and>
         prev_pos p' = pos p \<and>
         force p' = \<lparr>vx = 0, vy = 0\<rparr> \<and>
         radius p' = radius p \<and>
         (force p = \<lparr>vx = 0, vy = 0\<rparr> \<longrightarrow> vsub (pos p') (pos p) = vsub (pos p) (prev_pos p))"
  using assms
  by (simp add: updateParticles_def for_each_particle_map Particle_update_def Let_def
      power2_eq_square vadd_def vsub_def smul_def)

theorem updateParticles_verlet_witness:
  "pos (particles (updateParticles 2 two_movers) ! 0) = \<lparr>vx = 100, vy = 98\<rparr> \<and>
   prev_pos (particles (updateParticles 2 two_movers) ! 0) = \<lparr>vx = 98, vy = 97\<rparr> \<and>
   vsub (pos (particles (updateParticles 2 two_movers) ! 0)) \<lparr>vx = 98, vy = 97\<rparr> =
     vsub \<lparr>vx = 98, vy = 97\<rparr> \<lparr>vx = 96, vy = 96\<rparr>"
  using updateParticles_verlet [of 0 two_movers _ _ 2, OF _ refl refl]
  by (simp add: two_movers_def solver_with_def vadd_def vsub_def smul_def)

lemma constrain_particles_nth:
  assumes "i < length (particles s)"
  shows "particles (constrainParticlesToBoxContainer sz c s) ! i =
         constrain_y 0.25 (box_bottom sz c) (box_top sz c)
           (constrain_x 0.25 (box_left sz c) (box_right sz c) (particles s ! i))"
  using assms by (simp add: constrainParticlesToBoxContainer_def Let_def for_each_particle_map)

lemma constrain_x_fields:
  "vy (pos (constrain_x e l r p)) = vy (pos p)"
  "vy (prev_pos (constrain_x e l r p)) = vy (prev_pos p)"
  "radius (constrain_x e l r p) = radius p"
  by (simp_all add: constrain_x_def Let_def)

lemma constrain_y_fields:
  "vx (pos (constrain_y e b t p)) = vx (pos p)"
  "vx (prev_pos (constrain_y e b t p)) = vx (prev_pos p)"
  "radius (constrain_y e b t p) = radius p"
  by (simp_all add: constrain_y_def Let_def)

text \<open>
  C3, as the code has it. A particle that crosses the right edge at the start of the pass
  has its x coordinate reduced by \<open>2 * (pos.x + radius - box_right)\<close>, the difference
  \<open>pos.x - prev_pos.x\<close> becomes the old one times 0.25, reversed, and afterwards
  \<open>pos.x + radius \<le> box_right\<close>. The top edge is handled in the same way. The left and
  the bottom edge are the else-branches: they are handled in the mirrored way for a
  particle that does not cross the right edge, respectively the top edge.
\<close>

theorem constrainParticlesToBoxContainer_reflects:
  assumes "i < length (particles s)"
    and "p = particles s ! i"
    and "p' = particles (constrainParticlesToBoxContainer sz c s) ! i"
    and "l = box_left sz c" "r = box_right sz c" "t = box_top sz c" "b = box_bottom sz c"
  shows "(vx (pos p) + radius p > r \<longrightarrow>
            vx (pos p') = vx (pos p) - 2 * (vx (pos p) + radius p - r) \<and>
            vx (pos p') - vx (prev_pos p') = - (0.25 * (vx (pos p) - vx (prev_pos p))) \<and>
            vx (pos p') + radius p' \<le> r) \<and>
         (vy (pos p) + radius p > t \<longrightarrow>
            vy (pos p') = vy (pos p) - 2 * (vy (pos p) + radius p - t) \<and>
            vy (pos p') - vy (prev_pos p') = - (0.25 * (vy (pos p) - vy (prev_pos p))) \<and>
            vy (pos p') + radius p' \<le> t) \<and>
         (\<not> vx (pos p) + radius p > r \<and> vx (pos p) - radius p < l \<longrightarrow>
            vx (pos p') = vx (pos p) + 2 * (l - (vx (pos p) - radius p)) \<and>
            vx (pos p') - vx (prev_pos p') = - (0.25 * (vx (pos p) - vx (prev_pos p))) \<and>
            l \<le> vx (pos p') - radius p') \<and>
         (\<not> vy (pos p) + radius p > t \<and> vy (pos p) - radius p < b \<longrightarrow>
            vy (pos p') = vy (pos p) + 2 * (b - (vy (pos p) - radius p)) \<and>
            vy (pos p') - vy (prev_pos p') = - (0.25 * (vy (pos p) - vy (prev_pos p))) \<and>
            b \<le> vy (pos p') - radius p')"
proof -
  have p': "p' = constrain_y 0.25 b t (constrain_x 0.25 l r p)"
    using assms by (simp add: constrain_particles_nth)
  have X: "vx (pos p') = vx (pos (constrain_x 0.25 l r p))"
    "vx (prev_pos p') = vx (prev_pos (constrain_x 0.25 l r p))"
    "radius p' = radius p"
    by (simp_all add: p' constrain_y_fields constrain_x_fields)
  have Y: "vy (pos p') = vy (pos (constrain_y 0.25 b t p))"
    "vy (prev_pos p') = vy (prev_pos (constrain_y 0.25 b t p))"
    by (simp_all add: p' constrain_y_def constrain_x_fields Let_def)
  show ?thesis
    unfolding X Y by (simp add: constrain_x_def constrain_y_def Let_def) (simp add: field_simps)
qed

text \<open>
  The witness: in a box of size 200 by 200 about the origin, the first particle of
  \<open>two_movers\<close> crosses the right and the top edge, the second the left and the bottom
  edge.
\<close>

theorem constrainParticlesToBoxContainer_reflects_witness:
  "pos (particles (constrainParticlesToBoxContainer \<lparr>vx = 200, vy = 200\<rparr> \<lparr>vx = 0, vy = 0\<rparr>
      two_movers) ! 0) = \<lparr>vx = 92, vy = 93\<rparr> \<and>
   prev_pos (particles (constrainParticlesToBoxContainer \<lparr>vx = 200, vy = 200\<rparr> \<lparr>vx = 0, vy = 0\<rparr>
      two_movers) ! 0) = \<lparr>vx = 92.5, vy = 93.25\<rparr> \<and>
   pos (particles (constrainParticlesToBoxContainer \<lparr>vx = 200, vy = 200\<rparr> \<lparr>vx = 0, vy = 0\<rparr>
      two_movers) ! 1) = \<lparr>vx = - 92, vy = - 93\<rparr> \<and>
   prev_pos (particles (constrainParticlesToBoxContainer \<lparr>vx = 200, vy = 200\<rparr> \<lparr>vx = 0, vy = 0\<rparr>
      two_movers) ! 1) = \<lparr>vx = - 92.5, vy = - 93.25\<rparr>"
proof -
  let ?s' = "constrainParticlesToBoxContainer \<lparr>vx = 200, vy = 200\<rparr> \<lparr>vx = 0, vy = 0\<rparr> two_movers"
  have e: "box_left \<lparr>vx = 200, vy = 200\<rparr> \<lparr>vx = 0, vy = 0\<rparr> = - 100"
    "box_right \<lparr>vx = 200, vy = 200\<rparr> \<lparr>vx = 0, vy = 0\<rparr> = 100"
    "box_top \<lparr>vx = 200, vy = 200\<rparr> \<lparr>vx = 0, vy = 0\<rparr> = 100"
    "box_bottom \<lparr>vx = 200, vy = 200\<rparr> \<lparr>vx = 0, vy = 0\<rparr> = - 100"
    by (simp_all add: box_left_def box_right_def box_top_def box_bottom_def vquot_def)
  have a: "vx (pos (particles ?s' ! 0)) = 92 \<and> vy (pos (particles ?s' ! 0)) = 93 \<and>
           vx (prev_pos (particles ?s' ! 0)) = 92.5 \<and> vy (prev_pos (particles ?s' ! 0)) = 93.25"
    using constrainParticlesToBoxContainer_reflects [of 0 two_movers _ _
        "\<lparr>vx = 200, vy = 200\<rparr>" "\<lparr>vx = 0, vy = 0\<rparr>", OF _ refl refl refl refl refl refl]
    by (simp add: e two_movers_def solver_with_def)
  have b: "vx (pos (particles ?s' ! 1)) = - 92 \<and> vy (pos (particles ?s' ! 1)) = - 93 \<and>
           vx (prev_pos (particles ?s' ! 1)) = - 92.5 \<and> vy (prev_pos (particles ?s' ! 1)) = - 93.25"
    using constrainParticlesToBoxContainer_reflects [of 1 two_movers _ _
        "\<lparr>vx = 200, vy = 200\<rparr>" "\<lparr>vx = 0, vy = 0\<rparr>", OF _ refl refl refl refl refl refl]
    by (simp add: e two_movers_def solver_with_def)
  have eq: "q = \<lparr>vx = vx q, vy = vy q\<rparr>" for q :: vec2
    by simp
  show ?thesis
    using a b
    by (metis (full_types) eq)
qed

text \<open>
  The claim C3 as it is written, with the left edge the mirror image of the right one,
  fails for a particle that is wider than the box: it crosses the left edge and the right
  edge at once, only the right edge is treated, and afterwards the particle is further
  beyond the left edge than before.
\<close>

theorem constrainParticlesToBoxContainer_left_counterexample:
  "vx (pos (particles (solver_with [particle_at 5 50 6]) ! 0))
     - radius (particles (solver_with [particle_at 5 50 6]) ! 0)
     < box_left \<lparr>vx = 10, vy = 100\<rparr> \<lparr>vx = 5, vy = 50\<rparr> \<and>
   vx (pos (particles (constrainParticlesToBoxContainer \<lparr>vx = 10, vy = 100\<rparr> \<lparr>vx = 5, vy = 50\<rparr>
      (solver_with [particle_at 5 50 6])) ! 0)) = 3 \<and>
   \<not> box_left \<lparr>vx = 10, vy = 100\<rparr> \<lparr>vx = 5, vy = 50\<rparr>
     \<le> vx (pos (particles (constrainParticlesToBoxContainer \<lparr>vx = 10, vy = 100\<rparr> \<lparr>vx = 5, vy = 50\<rparr>
          (solver_with [particle_at 5 50 6])) ! 0))
       - radius (particles (constrainParticlesToBoxContainer \<lparr>vx = 10, vy = 100\<rparr> \<lparr>vx = 5, vy = 50\<rparr>
          (solver_with [particle_at 5 50 6])) ! 0)"
  by (simp add: constrain_particles_nth solver_with_def particle_at_def constrain_x_def
      constrain_y_def box_left_def box_right_def box_top_def box_bottom_def vquot_def Let_def)

section \<open>Properties of the particle store\<close>

text \<open>
  \<open>spawnParticle\<close> appends exactly one particle, leaves the particles before it as they
  were, and returns the place of the new one. Whether the C++ reference that the function
  returns outlives later calls depends on where the container keeps its elements, which
  a list does not express; what a list expresses is that the place returned still holds
  the particle after any further spawns.
\<close>

lemma spawnParticle_appends:
  assumes "spawnParticle mk p r s = (s', h)"
  shows "particles s' = particles s @ [mk p r]"
    and "h = length (particles s)"
    and "particles s' ! h = mk p r"
    and "\<forall>i<length (particles s). particles s' ! i = particles s ! i"
  using assms by (auto simp add: spawnParticle_def Let_def nth_append)

lemma spawnParticle_keeps_place:
  assumes "spawnParticle mk p r s = (s', h')" "h < length (particles s)"
  shows "h < length (particles s') \<and> particles s' ! h = particles s ! h"
  using assms by (auto simp add: spawnParticle_def Let_def nth_append)

section \<open>Properties of single precision\<close>





lemma pow2_powi: "pow2 e = 2 powi e"
  by (simp add: pow2_def power_int_def inverse_eq_divide power_one_over)

lemma pow2_mono: "e \<le> e' \<Longrightarrow> pow2 e \<le> pow2 e'"
  unfolding pow2_powi by (rule power_int_increasing) simp_all



lemma float32_exponent_from_eq:
  "e0 \<le> e \<Longrightarrow> e - e0 \<le> int fuel \<Longrightarrow> e = e0 \<or> pow2 e \<le> a \<Longrightarrow>
   a < pow2 (e + 1) \<or> e - e0 = int fuel \<Longrightarrow> float32_exponent_from fuel e0 a = e"
proof (induction fuel arbitrary: e0)
  case 0
  then show ?case by simp
next
  case (Suc fuel)
  show ?case
  proof (cases "e = e0")
    case True
    then show ?thesis using Suc.prems by simp
  next
    case False
    then have lt: "e0 + 1 \<le> e" and le: "pow2 e \<le> a"
      using Suc.prems by simp_all
    have "pow2 (e0 + 1) \<le> a"
      using pow2_mono [OF lt] le by simp
    then have "float32_exponent_from (Suc fuel) e0 a = float32_exponent_from fuel (e0 + 1) a"
      by simp
    also have "\<dots> = e"
      using Suc.prems lt le by (intro Suc.IH) auto
    finally show ?thesis .
  qed
qed

lemma float32_exponent_normal:
  assumes "pow2 e \<le> a" "a < pow2 (e + 1)" "- 126 \<le> e" "e \<le> 127"
  shows "float32_exponent a = e"
  unfolding float32_exponent_def using assms
  by (intro float32_exponent_from_eq) simp_all

lemma float32_exponent_subnormal:
  assumes "a < pow2 (- 125)"
  shows "float32_exponent a = - 126"
  unfolding float32_exponent_def using assms
  by (intro float32_exponent_from_eq) simp_all

lemma float32_value_normal:
  assumes "pow2 e \<le> \<bar>x\<bar>" "\<bar>x\<bar> < pow2 (e + 1)" "- 126 \<le> e" "e \<le> 127"
  shows "float32_value x = of_int (round_half_even (x / pow2 (e - 23))) * pow2 (e - 23)"
  by (simp add: float32_value_def Let_def float32_exponent_normal [OF assms])



text \<open>
  The quotient of \<open>1.0f\<close> by \<open>0.2f\<close>, which is the float \<open>13421773 / 67108864\<close>, is \<open>5.0f\<close>:
  the exact quotient is less than 5 by less than half the distance of two floats.
\<close>

lemma fdiv32_one_by_fifth: "fdiv32 1 (13421773 / 67108864) = Inr 5"
proof -
  have "float32_value (1 / (13421773 / 67108864)) = 5"
    by (subst float32_value_normal [of 2]) (simp_all add: pow2_def round_half_even_def Let_def)
  then show ?thesis
    by (simp add: fdiv32_def float32_round_def pow2_def)
qed

section \<open>Properties of the spatial hash\<close>


lemma u32_small: "n < 4294967296 \<Longrightarrow> u32 n = n"
  by (simp add: u32_def nat_mod_distrib)

lemma cell_bound:
  fixes a b :: nat
  assumes "a < cx" "b < cy"
  shows "b * cx + a < cx * cy"
proof -
  have "b * cx + a < b * cx + cx" using assms by simp
  also have "\<dots> = (Suc b) * cx" by simp
  also have "\<dots> \<le> cy * cx" using assms by (intro mult_le_mono1) simp
  finally show ?thesis by (simp add: mult.commute)
qed


































text \<open>
  A particle at \<open>x = 1\<close> in a grid of 5 by 1 cells of width \<open>0.2f\<close>: the quotient of the
  program is \<open>5.0f\<close>, so the particle is counted in the last entry of \<open>count_arr\<close>, which
  belongs to no cell, and its centre is not in the grid in the sense of \<open>in_grid\<close>.
\<close>

lemma float32_value_zero: "float32_value 0 = 0"
  by (simp add: float32_value_def round_half_even_def Let_def)

lemma hash_cell_on_border:
  "hash_cell
     \<lparr>screen_size = \<lparr>vx = 1, vy = 13421773 / 67108864\<rparr>, sub_steps = 8,
      cell_width = 13421773 / 67108864, cell_count_x = 5, cell_count_y = 1,
      grid = replicate 5 [], particles = [particle_at 1 0 0]\<rparr> (particle_at 1 0 0) = Inr 5"
proof -
  have "fdiv32 0 (13421773 / 67108864) = Inr 0"
    by (simp add: fdiv32_def float32_round_def float32_value_zero pow2_def)
  then show ?thesis
    by (simp add: hash_cell_def particle_at_def fdiv32_one_by_fifth bind_err_def to_int32_def
        truncate_float_def s32_def Let_def)
qed

section \<open>Properties of the driver\<close>

text \<open>The constructor sets the number of sub-steps to 8.\<close>

lemma PhysicSolver_sub_steps: "PhysicSolver sz r = Inr s \<Longrightarrow> sub_steps s = 8"
  by (auto simp add: PhysicSolver_def Let_def bind_err_def split: sum.splits)





text \<open>
  No operation of a frame changes the number of sub-steps, so every later frame has 8
  sub-steps as well.
\<close>

lemma sub_step_sub_steps:
  assumes "sub_step K d s = Inr s'"
  shows "sub_steps s' = sub_steps s \<and> screen_size s' = screen_size s \<and>
         length (particles s') = length (particles s)"
  using assms
  by (auto simp add: sub_step_def solveParticleCollisionsSpatialHash_def bind_err_def Let_def
      constrainParticlesToBoxContainer_def updateParticles_def applyGravity_def
      for_each_particle_map split: sum.splits prod.splits if_splits)

lemma update_loop_sub_steps:
  "update_loop K d n s = Inr s' \<Longrightarrow> sub_steps s' = sub_steps s"
proof (induction n arbitrary: s)
  case 0
  then show ?case by simp
next
  case (Suc n)
  then show ?case
    by (cases "sub_step K d s") (auto dest: sub_step_sub_steps)
qed

lemma update_sub_steps: "update K dt s = Inr s' \<Longrightarrow> sub_steps s' = sub_steps s"
  by (simp add: update_def update_loop_sub_steps)

section \<open>Properties of the fixed grid\<close>

text \<open>The two nested loops over a cell, by recursion on the cell.\<close>

lemma pairs_of_Cons: "pairs_of (x # xs) = map (\<lambda>y. (x, y)) xs @ pairs_of xs"
proof -
  let ?n = "length xs"
  have "[0..<Suc ?n] = 0 # [Suc 0..<Suc ?n]"
    by (rule upt_conv_Cons) simp
  then have idx: "[0..<Suc ?n] = 0 # map Suc [0..<?n]"
    by (simp only: map_Suc_upt)
  have first: "map (\<lambda>p2_i. ((x # xs) ! 0, (x # xs) ! p2_i)) [0 + 1..<Suc ?n] = map (\<lambda>y. (x, y)) xs"
  proof -
    have "[0 + 1..<Suc ?n] = map Suc [0..<?n]"
      by (simp add: map_Suc_upt)
    then have "map (\<lambda>p2_i. ((x # xs) ! 0, (x # xs) ! p2_i)) [0 + 1..<Suc ?n] =
               map (\<lambda>k. (x, xs ! k)) [0..<?n]"
      by (simp add: comp_def)
    also have "\<dots> = map (\<lambda>y. (x, y)) (map ((!) xs) [0..<?n])"
      by (simp add: comp_def)
    finally show ?thesis
      by (simp add: map_nth)
  qed
  have rest: "map (\<lambda>p2_i. ((x # xs) ! Suc p1, (x # xs) ! p2_i)) [Suc p1 + 1..<Suc ?n] =
              map (\<lambda>p2_i. (xs ! p1, xs ! p2_i)) [p1 + 1..<?n]" for p1
  proof -
    have "[Suc p1 + 1..<Suc ?n] = map Suc [p1 + 1..<?n]"
      by (simp add: map_Suc_upt)
    then show ?thesis
      by (simp add: comp_def)
  qed
  have "pairs_of (x # xs) =
        map (\<lambda>p2_i. ((x # xs) ! 0, (x # xs) ! p2_i)) [0 + 1..<Suc ?n] @
        concat (map (\<lambda>p1. map (\<lambda>p2_i. ((x # xs) ! Suc p1, (x # xs) ! p2_i)) [Suc p1 + 1..<Suc ?n])
          [0..<?n])"
    unfolding pairs_of_def by (simp only: length_Cons idx list.map concat.simps map_map comp_def)
  then show ?thesis
    unfolding first rest by (simp add: pairs_of_def)
qed

lemma pairs_of_Nil: "pairs_of [] = []"
  by (simp add: pairs_of_def)

lemma times_called_append:
  "times_called i j (xs @ ys) = times_called i j xs + times_called i j ys"
  by (simp add: times_called_def)


lemma times_called_Pair:
  assumes "i \<noteq> j" "distinct xs" "x \<notin> set xs"
  shows "times_called i j (map (\<lambda>y. (x, y)) xs) =
           (if (x = i \<and> j \<in> set xs) \<or> (x = j \<and> i \<in> set xs) then 1 else 0)"
  using assms(2,3)
proof (induction xs)
  case Nil
  then show ?case by (simp add: times_called_def)
next
  case (Cons y ys)
  then have IH: "times_called i j (map (\<lambda>y. (x, y)) ys) =
           (if (x = i \<and> j \<in> set ys) \<or> (x = j \<and> i \<in> set ys) then 1 else 0)"
    by simp
  have "times_called i j (map (\<lambda>y. (x, y)) (y # ys)) =
        (if (x = i \<and> y = j) \<or> (x = j \<and> y = i) then 1 else 0) +
        times_called i j (map (\<lambda>y. (x, y)) ys)"
    by (simp add: times_called_def)
  then show ?case
    unfolding IH using Cons.prems assms(1) by auto
qed

lemma times_called_pairs_of:
  assumes "i \<noteq> j" "distinct cell"
  shows "times_called i j (pairs_of cell) = (if i \<in> set cell \<and> j \<in> set cell then 1 else 0)"
  using assms(2)
proof (induction cell)
  case Nil
  then show ?case by (simp add: pairs_of_Nil times_called_def)
next
  case (Cons x xs)
  then have IH: "times_called i j (pairs_of xs) = (if i \<in> set xs \<and> j \<in> set xs then 1 else 0)"
    and d: "distinct xs" "x \<notin> set xs"
    by simp_all
  show ?case
    unfolding pairs_of_Cons times_called_append times_called_Pair [OF assms(1) d] IH
    using assms(1) d(2) by auto
qed


lemma rows_upt:
  fixes ccx :: nat
  shows "concat (map (\<lambda>y. map (\<lambda>x. y * ccx + x) [0..<ccx]) [0..<ccy]) = [0..<ccx * ccy]"
proof (induction ccy)
  case 0
  then show ?case by simp
next
  case (Suc ccy)
  have row: "map (\<lambda>x. ccy * ccx + x) [0..<ccx] = [ccx * ccy..<ccx * ccy + ccx]"
    using map_add_upt [of "ccx * ccy" ccx] by (simp add: add.commute mult.commute)
  have "[0..<ccx * ccy + ccx] = [0..<ccx * ccy] @ [ccx * ccy..<ccx * ccy + ccx]"
    by (rule upt_add_eq_append) simp
  then have "[0..<ccx * Suc ccy] = [0..<ccx * ccy] @ [ccx * ccy..<ccx * ccy + ccx]"
    by (simp add: add.commute)
  then show ?case
    using Suc row by simp
qed

lemma cells_in_range_all:
  assumes "ccx * ccy < 4294967296"
  shows "cells_in_range ccx 0 ccx 0 ccy = [0..<ccx * ccy]"
proof -
  have cell: "u32 (u32 (y * ccx) + x) = y * ccx + x" if "x < ccx" "y < ccy" for x y
  proof -
    have "y * ccx + x < ccx * ccy" using that by (rule cell_bound)
    then have "y * ccx + x < 4294967296" "y * ccx < 4294967296"
      using assms by simp_all
    then show ?thesis by (simp add: u32_small)
  qed
  have row: "map (\<lambda>x. u32 (u32 (y * ccx) + x)) [0..<ccx] = map (\<lambda>x. y * ccx + x) [0..<ccx]"
    if "y < ccy" for y
    by (rule map_cong [OF refl]) (simp add: cell that)
  have rows: "map (\<lambda>y. map (\<lambda>x. u32 (u32 (y * ccx) + x)) [0..<ccx]) [0..<ccy] =
             map (\<lambda>y. map (\<lambda>x. y * ccx + x) [0..<ccx]) [0..<ccy]"
    by (rule map_cong [OF refl]) (simp add: row)
  show ?thesis
    unfolding cells_in_range_def rows by (rule rows_upt)
qed
















text \<open>
  The pass of the fixed grid is the assignment, then the calls of \<open>fixedGridCalls\<close>
  made in their order, then the clearing of the visited cells.
\<close>

lemma collideTwoParticles_grid_update:
  "collideTwoParticles a b (s\<lparr>grid := G\<rparr>) =
     (case collideTwoParticles a b s of Inl e \<Rightarrow> Inl e | Inr s' \<Rightarrow> Inr (s'\<lparr>grid := G\<rparr>))"
  by (simp add: collideTwoParticles_def Let_def bind_err_def vdiv_def fdiv_def)

lemma collideTwoParticles_grid:
  "collideTwoParticles a b s = Inr s' \<Longrightarrow> grid s' = grid s"
  by (auto simp add: collideTwoParticles_def Let_def bind_err_def vdiv_def fdiv_def
      split: if_splits)

lemma collideAll_grid_update:
  "collideAll cs (s\<lparr>grid := G\<rparr>) =
     (case collideAll cs s of Inl e \<Rightarrow> Inl e | Inr s' \<Rightarrow> Inr (s'\<lparr>grid := G\<rparr>))"
proof (induction cs arbitrary: s)
  case Nil
  then show ?case by simp
next
  case (Cons c cs)
  show ?case
    by (cases "collideTwoParticles (fst c) (snd c) s")
      (simp_all add: collideTwoParticles_grid_update Cons.IH)
qed

lemma collideAll_grid: "collideAll cs s = Inr s' \<Longrightarrow> grid s' = grid s"
proof (induction cs arbitrary: s)
  case Nil
  then show ?case by simp
next
  case (Cons c cs)
  then show ?case
    by (cases "collideTwoParticles (fst c) (snd c) s")
      (auto dest: collideTwoParticles_grid)
qed

lemma collideAll_append:
  "collideAll (xs @ ys) s = bind_err (collideAll xs s) (collideAll ys)"
proof (induction xs arbitrary: s)
  case Nil
  then show ?case by (simp add: bind_err_def)
next
  case (Cons c cs)
  show ?case
    by (cases "collideTwoParticles (fst c) (snd c) s") (simp_all add: Cons.IH bind_err_def)
qed

lemma solveCells_calls:
  "cellCalls cs (grid s) = Inr calls \<Longrightarrow>
   solveCells cs s =
     bind_err (collideAll calls s) (\<lambda>s'. Inr (s'\<lparr>grid := fold (\<lambda>c g. g[c := []]) cs (grid s)\<rparr>))"
proof (induction cs arbitrary: s calls)
  case Nil
  then show ?case by (simp add: bind_err_def)
next
  case (Cons c cs)
  let ?P = "pairs_of (grid s ! c)"
  let ?F = "fold (\<lambda>c g. g[c := []]) cs ((grid s)[c := []])"
  from Cons.prems have c: "c < length (grid s)"
    by (simp split: if_splits)
  with Cons.prems obtain rest where rest:
    "cellCalls cs ((grid s)[c := []]) = Inr rest" "calls = ?P @ rest"
    by (auto split: sum.splits)
  show ?case
  proof (cases "collideAll ?P s")
    case (Inl e)
    then show ?thesis
      using c by (simp add: rest(2) collideAll_append bind_err_def)
  next
    case (Inr s1)
    then have g1: "grid s1 = grid s"
      by (rule collideAll_grid)
    let ?s2 = "s1\<lparr>grid := (grid s)[c := []]\<rparr>"
    have "cellCalls cs (grid ?s2) = Inr rest"
      using rest(1) by simp
    from Cons.IH [OF this] have
      "solveCells cs ?s2 = bind_err (collideAll rest ?s2) (\<lambda>s'. Inr (s'\<lparr>grid := ?F\<rparr>))"
      by simp
    also have "\<dots> = bind_err (collideAll rest s1) (\<lambda>s'. Inr (s'\<lparr>grid := ?F\<rparr>))"
      by (cases "collideAll rest s1") (simp_all add: collideAll_grid_update bind_err_def)
    finally show ?thesis
      using c Inr g1 by (simp add: rest(2) collideAll_append bind_err_def)
  qed
qed

lemma solveParticleCollisionsFixedGrid_calls:
  assumes "assignParticlesToFixedGrid s = Inr s1" "fixedGridCalls s = Inr calls"
  shows "solveParticleCollisionsFixedGrid s =
           bind_err (collideAll calls s1) (\<lambda>s'. Inr (s'\<lparr>grid :=
             fold (\<lambda>c g. g[c := []])
               (cells_in_range (cell_count_x s1) 0 (cell_count_x s1) 0 (cell_count_y s1))
               (grid s1)\<rparr>))"
proof -
  have "cellCalls (cells_in_range (cell_count_x s1) 0 (cell_count_x s1) 0 (cell_count_y s1))
          (grid s1) = Inr calls"
    using assms by (simp add: fixedGridCalls_def bind_err_def)
  from solveCells_calls [OF this] show ?thesis
    using assms(1)
    by (simp add: solveParticleCollisionsFixedGrid_def solveGridCollisionsInRange_def bind_err_def)
qed

text \<open>
  The brute-force pass calls \<open>collideTwoParticles\<close> exactly once for every unordered pair
  of distinct particle indices.
\<close>

lemma bruteForce_pair_once:
  assumes "i \<noteq> j" "i < n" "j < n"
  shows "times_called i j (pairs_of [0..<n]) = 1"
  using times_called_pairs_of [OF assms(1), of "[0..<n]"] assms(2,3) by simp














text \<open>
  Without the condition on the rounding the program misses an overlapping pair. The two
  particles of \<open>rounded_apart_pair\<close> overlap, are no wider than a cell and have their
  minimum corners in the grid. In exact arithmetic both are members of the third cell.
  The program rounds the quotient of the first particle up to \<open>3.0f\<close> and makes it a
  member of the fourth cell only, the second particle is a member of the second and the
  third cell, and no call of \<open>collideTwoParticles\<close> is made.
\<close>

lemma rounded_apart_floats:
  "float32_value 2 = 2"
  "float32_value (70464301 / 16777216) = 4404019 / 1048576"
  "float32_value (35232152 / 11744051) = 3"
  "float32_value (46976201 / 16777216) = 5872025 / 2097152"
  "float32_value (23488100 / 11744051) = 16777215 / 8388608"
  "float32_value (70464303 / 16777216) = 4404019 / 1048576"
  "float32_value (11744051 / 4194304) = 11744051 / 4194304"
proof -
  show "float32_value 2 = 2"
    by (subst float32_value_normal [of 1]) (simp_all add: pow2_def round_half_even_def Let_def)
  show "float32_value (70464301 / 16777216) = 4404019 / 1048576"
    by (subst float32_value_normal [of 2]) (simp_all add: pow2_def round_half_even_def Let_def)
  show "float32_value (35232152 / 11744051) = 3"
    by (subst float32_value_normal [of 1]) (simp_all add: pow2_def round_half_even_def Let_def)
  show "float32_value (46976201 / 16777216) = 5872025 / 2097152"
    by (subst float32_value_normal [of 1]) (simp_all add: pow2_def round_half_even_def Let_def)
  show "float32_value (23488100 / 11744051) = 16777215 / 8388608"
    by (subst float32_value_normal [of 0]) (simp_all add: pow2_def round_half_even_def Let_def)
  show "float32_value (70464303 / 16777216) = 4404019 / 1048576"
    by (subst float32_value_normal [of 2]) (simp_all add: pow2_def round_half_even_def Let_def)
  show "float32_value (11744051 / 4194304) = 11744051 / 4194304"
    by (subst float32_value_normal [of 1]) (simp_all add: pow2_def round_half_even_def Let_def)
qed

lemma rounded_apart_assigned:
  "assignParticlesToFixedGrid rounded_apart_pair =
     Inr (rounded_apart_pair\<lparr>grid := [[], [1], [1], [0]]\<rparr>)"
  by (simp add: assignParticlesToFixedGrid_def assignParticle_def corner_cell_def
      reaches_next_def fsub32_def fadd32_def fmul32_def fdiv32_def float32_round_def
      rounded_apart_floats float32_value_zero pow2_def rounded_apart_pair_def particle_at_def
      to_uint32_def truncate_float_def u32_def push_back_def bind_err_def Let_def)

lemma rounded_apart_pair_missed:
  "vlength (vsub (pos (particles rounded_apart_pair ! 0)) (pos (particles rounded_apart_pair ! 1)))
     < radius (particles rounded_apart_pair ! 0) + radius (particles rounded_apart_pair ! 1) \<and>
   (\<forall>p\<in>set (particles rounded_apart_pair).
      corner_in_grid rounded_apart_pair p \<and> 2 * radius p \<le> cell_width rounded_apart_pair) \<and>
   cells_of rounded_apart_pair (particles rounded_apart_pair ! 0) = {2, 3} \<and>
   cells_of rounded_apart_pair (particles rounded_apart_pair ! 1) = {1, 2} \<and>
   \<not> rounding_harmless rounded_apart_pair (particles rounded_apart_pair ! 0) \<and>
   fixedGridCalls rounded_apart_pair = Inr []"
proof -
  have "[0..<4] = [0, 1, 2, Suc 2]"
    by (simp add: upt_conv_Cons numeral_eq_Suc)
  then have cells: "cells_in_range 4 0 4 0 (Suc 0) = [0, 1, 2, 3]"
    using cells_in_range_all [of 4 "Suc 0"] by simp
  have calls: "fixedGridCalls rounded_apart_pair = Inr []"
    unfolding fixedGridCalls_def rounded_apart_assigned
    by (simp add: bind_err_def rounded_apart_pair_def cells pairs_of_Cons pairs_of_Nil)
  have ov: "vlength (vsub (pos (particles rounded_apart_pair ! 0))
                          (pos (particles rounded_apart_pair ! 1)))
     < radius (particles rounded_apart_pair ! 0) + radius (particles rounded_apart_pair ! 1)"
    by (simp add: rounded_apart_pair_def particle_at_def vsub_def vlength_horizontal)
  have geo: "\<forall>p\<in>set (particles rounded_apart_pair).
      corner_in_grid rounded_apart_pair p \<and> 2 * radius p \<le> cell_width rounded_apart_pair"
    by (simp add: rounded_apart_pair_def particle_at_def corner_in_grid_def)
  have c0: "cells_of rounded_apart_pair (particles rounded_apart_pair ! 0) = {2, 3}"
    by (auto simp add: rounded_apart_pair_def particle_at_def cells_of_def Let_def)
  have c1: "cells_of rounded_apart_pair (particles rounded_apart_pair ! 1) = {1, 2}"
    by (auto simp add: rounded_apart_pair_def particle_at_def cells_of_def Let_def)
  have nh: "\<not> rounding_harmless rounded_apart_pair (particles rounded_apart_pair ! 0)"
    by (simp add: rounding_harmless_def corner_cell_def fsub32_def fdiv32_def float32_round_def
        rounded_apart_floats pow2_def rounded_apart_pair_def particle_at_def
        to_uint32_def truncate_float_def bind_err_def Let_def)
  show ?thesis using ov geo c0 c1 nh calls by simp
qed



end
